theory Spec2Isabelle
  imports Main "HOL-Library.Word" "HOL-Library.Sublist"
begin

unbundle bit_operations_syntax

section \<open>Byte strings\<close>

text \<open>
  The module is Python 2 code (it formats and joins byte strings with \<open>str\<close>
  operations), so \<open>PY3\<close> is false throughout and a byte string is a \<open>str\<close>:
  a list of 8-bit characters.
\<close>

type_synonym bytes = string

definition ord :: "char \<Rightarrow> int" where
  "ord x = of_char x"

text \<open>
  Exceptions are values. The \<open>AnsibleError\<close>s of the module are told apart by
  their message; the other constructors are the built-in exceptions that the called
  Python operations raise.
\<close>

datatype error =
    NotVault  \<comment> \<open>AnsibleError: Input is not an encrypted vault file\<close>
  | MalformedHeader nat  \<comment> \<open>AnsibleError: Malformed vault header. Expected n fields\<close>
  | UnknownCipher  \<comment> \<open>AnsibleError: Vault file encrypted with unrecognised cipher\<close>
  | CipherNotFound  \<comment> \<open>AnsibleError: cipher could not be found\<close>
  | DecryptionFailed  \<comment> \<open>AnsibleError: Decryption failed\<close>
  | PasswordRequired  \<comment> \<open>AnsibleError: A vault password must be specified\<close>
  | AlreadyEncrypted  \<comment> \<open>AnsibleError: input is already encrypted\<close>
  | DeprecatedEncrypt  \<comment> \<open>AnsibleError: Encryption disabled for deprecated VaultAES class\<close>
  | AlreadyExists  \<comment> \<open>AnsibleError: exists, please use 'edit' instead\<close>
  | ReadError  \<comment> \<open>AnsibleError raised by read_data from any exception\<close>
  | PyTypeError
  | PyValueError
  | PyIndexError
  | PyAttributeError
  | PyZeroDivisionError
  | PyAssertionError
  | PyOSError

subsection \<open>Python string operations\<close>

text \<open>\<open>str.strip()\<close> removes the ASCII whitespace bytes at both ends.\<close>

definition py_isspace :: "char \<Rightarrow> bool" where
  "py_isspace x \<longleftrightarrow> of_char x \<in> {9, 10, 11, 12, 13, 32 :: nat}"

definition py_strip :: "bytes \<Rightarrow> bytes" where
  "py_strip s = rev (dropWhile py_isspace (rev (dropWhile py_isspace s)))"

text \<open>\<open>s.split(sep)\<close> for a one-byte separator: never an empty list.\<close>

fun py_split :: "char \<Rightarrow> bytes \<Rightarrow> bytes list" where
  "py_split sep [] = [[]]"
| "py_split sep (x # xs) =
     (if x = sep then [] # py_split sep xs
      else (case py_split sep xs of
              [] \<Rightarrow> [[x]]
            | w # ws \<Rightarrow> (x # w) # ws))"

text \<open>\<open>s.split(sep, maxsplit)\<close>: at most \<open>maxsplit\<close> cuts, from the left.\<close>

fun py_splitn :: "char \<Rightarrow> nat \<Rightarrow> bytes \<Rightarrow> bytes list" where
  "py_splitn sep 0 s = [s]"
| "py_splitn sep (Suc n) [] = [[]]"
| "py_splitn sep (Suc n) (x # xs) =
     (if x = sep then [] # py_splitn sep n xs
      else (case py_splitn sep (Suc n) xs of
              [] \<Rightarrow> [[x]]
            | w # ws \<Rightarrow> (x # w) # ws))"

text \<open>\<open>message.replace(b'\n', '')\<close>.\<close>

definition remove_newlines :: "bytes \<Rightarrow> bytes" where
  "remove_newlines s = filter (\<lambda>x. x \<noteq> CHR 0x0A) s"

text \<open>
  Comparison \<open>a >= b\<close> of two Python sequences: the first position where the
  items differ decides, by the items' own order; when one sequence is a prefix of the
  other, the longer one is the greater. Strings compare so on their bytes, and lists
  of strings on their strings.
\<close>

fun py_seq_ge :: "('a \<Rightarrow> 'a \<Rightarrow> bool) \<Rightarrow> 'a list \<Rightarrow> 'a list \<Rightarrow> bool" where
  "py_seq_ge ge xs [] = True"
| "py_seq_ge ge [] (y # ys) = False"
| "py_seq_ge ge (x # xs) (y # ys) = (if x = y then py_seq_ge ge xs ys else ge x y)"

definition py_str_ge :: "bytes \<Rightarrow> bytes \<Rightarrow> bool" where
  "py_str_ge a b = py_seq_ge (\<lambda>x y. (of_char y :: nat) \<le> of_char x) a b"

definition py_list_ge :: "bytes list \<Rightarrow> bytes list \<Rightarrow> bool" where
  "py_list_ge a b = py_seq_ge py_str_ge a b"

text \<open>
  The slice \<open>s[:k]\<close> for an integer \<open>k\<close>: a negative \<open>k\<close> counts from the
  end and stops at the start; \<open>k = 0\<close> (also written \<open>-0\<close>) is the empty slice.
\<close>

definition py_slice_to :: "'a list \<Rightarrow> int \<Rightarrow> 'a list" where
  "py_slice_to s k =
     (if k < 0 then take (nat (max 0 (int (length s) + k))) s else take (nat k) s)"

subsection \<open>binascii\<close>

definition hexdigit :: "nat \<Rightarrow> char" where
  "hexdigit n = (if n < 10 then char_of (48 + n) else char_of (87 + n))"

definition hexlify :: "bytes \<Rightarrow> bytes" where
  "hexlify s =
     concat (map (\<lambda>x. [hexdigit (of_char x div 16), hexdigit (of_char x mod 16)]) s)"

definition unhex_digit :: "char \<Rightarrow> nat option" where
  "unhex_digit x =
     (let n = (of_char x :: nat) in
      if 48 \<le> n \<and> n \<le> 57 then Some (n - 48)
      else if 97 \<le> n \<and> n \<le> 102 then Some (n - 87)
      else if 65 \<le> n \<and> n \<le> 70 then Some (n - 55)
      else None)"

text \<open>\<open>unhexlify\<close> raises TypeError (here \<open>None\<close>) on an odd length or a non-hex digit.\<close>

fun unhexlify :: "bytes \<Rightarrow> bytes option" where
  "unhexlify [] = Some []"
| "unhexlify [x] = None"
| "unhexlify (x # y # r) =
     (case (unhex_digit x, unhex_digit y, unhexlify r) of
        (Some a, Some b, Some rs) \<Rightarrow> Some (char_of (a * 16 + b) # rs)
      | _ \<Rightarrow> None)"

text \<open>
  \<open>int(s, 16)\<close> on a string of hex digits, as \<open>hexlify\<close> produces; the empty
  string and any other byte raise ValueError (here \<open>None\<close>).
\<close>

fun int16_loop :: "nat \<Rightarrow> bytes \<Rightarrow> nat option" where
  "int16_loop acc [] = Some acc"
| "int16_loop acc (x # xs) =
     (case unhex_digit x of
        None \<Rightarrow> None
      | Some d \<Rightarrow> int16_loop (acc * 16 + d) xs)"

definition int16 :: "bytes \<Rightarrow> nat option" where
  "int16 s = (if s = [] then None else int16_loop 0 s)"

section \<open>VaultAES256.is_equal\<close>

text \<open>
  The loop \<open>for x, y in zip(a, b): result |= ord(x) ^ ord(y)\<close>, with the
  accumulator \<open>result\<close> passed along.
\<close>

fun is_equal_loop :: "int \<Rightarrow> (char \<times> char) list \<Rightarrow> int" where
  "is_equal_loop result [] = result"
| "is_equal_loop result ((x, y) # zs) = is_equal_loop (result OR (ord x XOR ord y)) zs"

definition is_equal :: "bytes \<Rightarrow> bytes \<Rightarrow> bool" where
  "is_equal a b =
     (if length a \<noteq> length b then False
      else is_equal_loop 0 (zip a b) = 0)"

section \<open>External libraries\<close>

text \<open>
  The cryptographic primitives and the base64 codec are library code (pycrypto,
  cryptography, the standard library); the model takes them as the fields of one
  record and the theorems say which of their properties they use.
  \<^item> \<open>PBKDF2 c password salt n\<close>: PBKDF2-HMAC-SHA256 with 10000 iterations and
    \<open>n\<close> bytes of output (both implementations the module chooses from).
  \<^item> \<open>HMAC_SHA256 c key msg\<close>: \<open>HMAC.new(key, msg, SHA256).digest()\<close>.
  \<^item> \<open>AES_CTR_encrypt c key iv data\<close>, \<open>AES_CTR_decrypt c key iv data\<close>: a cipher
    made by \<open>AES.new(key, AES.MODE_CTR, counter=Counter.new(128, initial_value=iv))\<close>
    and used once.
  \<^item> \<open>b64encode\<close>, \<open>b64decode\<close>: the \<open>base64\<close> functions; \<open>None\<close> is the
    TypeError of a body that does not decode.
  \<^item> \<open>VaultAES_decrypt c data password\<close>: the reader of the obsolete \<open>AES\<close> format
    (class \<open>VaultAES\<close>), which raises or returns the payload.
\<close>

record crypto =
  PBKDF2 :: "bytes \<Rightarrow> bytes \<Rightarrow> nat \<Rightarrow> bytes"
  HMAC_SHA256 :: "bytes \<Rightarrow> bytes \<Rightarrow> bytes"
  AES_CTR_encrypt :: "bytes \<Rightarrow> nat \<Rightarrow> bytes \<Rightarrow> bytes"
  AES_CTR_decrypt :: "bytes \<Rightarrow> nat \<Rightarrow> bytes \<Rightarrow> bytes"
  b64encode :: "bytes \<Rightarrow> bytes"
  b64decode :: "bytes \<Rightarrow> bytes option"
  VaultAES_decrypt :: "bytes \<Rightarrow> bytes \<Rightarrow> error + bytes"

section \<open>Constants of the module\<close>

definition b_HEADER :: bytes where
  "b_HEADER = ''$ANSIBLE_VAULT''"

definition CIPHER_WHITELIST :: "bytes set" where
  "CIPHER_WHITELIST = {''AES'', ''AES256''}"

definition CIPHER_WRITE_WHITELIST :: "bytes set" where
  "CIPHER_WRITE_WHITELIST = {''AES256''}"

definition DEFAULT_WRITE_CIPHER :: bytes where
  "DEFAULT_WRITE_CIPHER = ''AES256''"

datatype cipher = VaultAES | VaultAES256

definition CIPHER_MAPPING :: "bytes \<rightharpoonup> cipher" where
  "CIPHER_MAPPING = [''AES'' \<mapsto> VaultAES, ''AES256'' \<mapsto> VaultAES256]"

text \<open>The attribute \<open>version\<close> that each cipher class sets in \<open>__init__\<close>.\<close>

fun cipher_version :: "cipher \<Rightarrow> bytes" where
  "cipher_version VaultAES = ''1.1''"
| "cipher_version VaultAES256 = ''1.2''"

section \<open>VaultLib: header codec\<close>

text \<open>
  A \<open>VaultLib\<close> holds the password as bytes; its \<open>cipher_options\<close> are handed to
  the cipher classes, which never read them.
\<close>

record VaultLib =
  b_password :: "bytes option"

definition is_encrypted :: "bytes \<Rightarrow> bool" where
  "is_encrypted data = prefix b_HEADER data"

text \<open>\<open>VaultLib._cipher\<close>.\<close>

definition cipher_class :: "bytes \<Rightarrow> error + cipher" where
  "cipher_class cipher_name =
     (case CIPHER_MAPPING cipher_name of
        None \<Rightarrow> Inl CipherNotFound
      | Some k \<Rightarrow> Inr k)"

text \<open>\<open>VaultLib._add_vault_header\<close>.\<close>

definition add_vault_header :: "bytes \<Rightarrow> bytes \<Rightarrow> bytes \<Rightarrow> bytes" where
  "add_vault_header b_cipher_name b_cipher_version b_ciphertext =
     (let b_vault_version = ''1.2'' in
      b_HEADER @ '';'' @ b_vault_version @ '';'' @ b_cipher_name @ '';'' @ b_cipher_version
        @ [CHR 0x0A] @ b_ciphertext)"

text \<open>
  The two local values of \<open>_parse_vault_header\<close>: \<open>lines\<close>, the data cut at the
  first newline, and \<open>header\<close>, the fields of the stripped first line.
\<close>

definition header_lines :: "bytes \<Rightarrow> bytes list" where
  "header_lines b_data = py_splitn (CHR 0x0A) 1 b_data"

definition header_fields :: "bytes \<Rightarrow> bytes list" where
  "header_fields b_data =
     (case header_lines b_data of
        [] \<Rightarrow> []
      | l # ls \<Rightarrow> py_split (CHR '';'') (py_strip l))"

text \<open>
  \<open>VaultLib._parse_vault_header\<close>: the vault version, the cipher name, the cipher
  version and the body (\<open>None\<close> when the data has no newline).
\<close>

definition parse_vault_header :: "bytes \<Rightarrow> error + (bytes \<times> bytes \<times> bytes \<times> bytes option)" where
  "parse_vault_header data =
     (let lines = header_lines data;
          header = header_fields data;
          b_data = (if length lines > 1 then Some (lines ! 1) else None)
      in
      if length header \<ge> 3 \<and> header ! 0 = b_HEADER then
        (let b_vault_version = py_strip (header ! 1);
             b_cipher_name = py_strip (header ! 2)
         in
         if py_list_ge (py_split (CHR ''.'') b_vault_version) [''1'', ''2''] then
           (if length header \<noteq> 4 then Inl (MalformedHeader 4)
            else Inr (b_vault_version, b_cipher_name, py_strip (header ! 3), b_data))
         else if length header = 3 then
           Inr (b_vault_version, b_cipher_name, b_vault_version, b_data)
         else Inl (MalformedHeader 3))
      else Inl NotVault)"

section \<open>VaultAES256\<close>

text \<open>The slice \<open>s[i:j]\<close> for \<open>0 \<le> i \<le> j\<close>, and \<open>range(0, n, 80)\<close>.\<close>

definition py_slice :: "'a list \<Rightarrow> nat \<Rightarrow> nat \<Rightarrow> 'a list" where
  "py_slice s i j = take (j - i) (drop i s)"

definition range80 :: "nat \<Rightarrow> nat list" where
  "range80 n = map (\<lambda>k. 80 * k) [0..<(n + 79) div 80]"

text \<open>
  \<open>gen_key_initctr\<close>: two 32-byte keys, and the initial counter, which is 0 unless
  \<open>generate_iv\<close> asks for sixteen more bytes, read as a big-endian number.
\<close>

definition gen_key_initctr ::
  "crypto \<Rightarrow> bytes \<Rightarrow> bytes \<Rightarrow> bool \<Rightarrow> error + (bytes \<times> bytes \<times> nat)" where
  "gen_key_initctr c password salt generate_iv =
     (let keylength = 32;
          ivlength = (if generate_iv then 16 else 0);
          derivedkey = PBKDF2 c password salt (2 * keylength + ivlength);
          key1 = py_slice derivedkey 0 keylength;
          key2 = py_slice derivedkey keylength (keylength * 2)
      in
      if generate_iv then
        (case int16 (hexlify (py_slice derivedkey (keylength * 2) (keylength * 2 + ivlength))) of
           None \<Rightarrow> Inl PyValueError
         | Some iv \<Rightarrow> Inr (key1, key2, iv))
      else Inr (key1, key2, 0))"

text \<open>\<open>AES.new\<close> takes a key of 16, 24 or 32 bytes and raises ValueError on any other.\<close>

definition AES_key_ok :: "bytes \<Rightarrow> bool" where
  "AES_key_ok key \<longleftrightarrow> length key \<in> {16, 24, 32}"

text \<open>
  \<open>VaultAES256.encrypt\<close>. The argument \<open>salt\<close> is what \<open>os.urandom(32)\<close>
  returned in this call.
\<close>

definition VaultAES256_encrypt :: "crypto \<Rightarrow> bytes \<Rightarrow> bytes \<Rightarrow> bytes \<Rightarrow> error + bytes" where
  "VaultAES256_encrypt c plaintext password salt =
     (case gen_key_initctr c password salt False of
        Inl e \<Rightarrow> Inl e
      | Inr (key1, key2, iv) \<Rightarrow>
          if \<not> AES_key_ok key1 then Inl PyValueError
          else
            (let ciphertext = AES_CTR_encrypt c key1 iv plaintext;
                 hmac = HMAC_SHA256 c key2 ciphertext;
                 message = b64encode c (salt @ hmac @ ciphertext);
                 lines = map (\<lambda>i. py_slice message i (i + 80) @ [CHR 0x0A])
                           (range80 (length message))
             in Inr (concat lines)))"

text \<open>
  \<open>VaultAES256.decrypt\<close>, in the order of the source. First the body is taken
  apart into salt, mac and ciphertext (the two branches on the version).
\<close>

definition aes256_unpack ::
  "crypto \<Rightarrow> bytes \<Rightarrow> bytes option \<Rightarrow> error + (bytes \<times> bytes \<times> bytes)" where
  "aes256_unpack c message0 version =
     (let message = remove_newlines message0 in
      if version = Some ''1.1'' then
        (case unhexlify message of
           None \<Rightarrow> Inl PyTypeError
         | Some m \<Rightarrow>
             (case py_splitn (CHR 0x0A) 2 m of
                [salt, mac, ciphertext] \<Rightarrow>
                  (case (unhexlify salt, unhexlify mac, unhexlify ciphertext) of
                     (Some s, Some t, Some x) \<Rightarrow> Inr (s, t, x)
                   | _ \<Rightarrow> Inl PyTypeError)
              | _ \<Rightarrow> Inl PyValueError))
      else
        (case b64decode c message of
           None \<Rightarrow> Inl PyTypeError
         | Some m \<Rightarrow> Inr (py_slice m 0 32, py_slice m 32 64, drop 64 m)))"

text \<open>The removal of the padding that version 1.1 added, at the end of \<open>decrypt\<close>.\<close>

definition strip_padding :: "bytes option \<Rightarrow> bytes \<Rightarrow> error + bytes" where
  "strip_padding version plaintext =
     (if version = Some ''1.1'' then
        (if plaintext = [] then Inl PyIndexError
         else
           (let padding_length = ord (last plaintext)
            in Inr (py_slice_to plaintext (- padding_length))))
      else Inr plaintext)"

text \<open>
  The whole method. \<open>Inr None\<close> is the \<open>return None\<close> of a MAC that does not
  validate.
\<close>

definition VaultAES256_decrypt ::
  "crypto \<Rightarrow> bytes \<Rightarrow> bytes \<Rightarrow> bytes option \<Rightarrow> error + bytes option" where
  "VaultAES256_decrypt c message password version =
     (case aes256_unpack c message version of
        Inl e \<Rightarrow> Inl e
      | Inr (salt, mac, ciphertext) \<Rightarrow>
          (case gen_key_initctr c password salt (version = Some ''1.1'') of
             Inl e \<Rightarrow> Inl e
           | Inr (key1, key2, iv) \<Rightarrow>
               (let hmac = HMAC_SHA256 c key2 ciphertext in
                if \<not> is_equal mac hmac then Inr None
                else if \<not> AES_key_ok key1 then Inl PyValueError
                else
                  (case strip_padding version (AES_CTR_decrypt c key1 iv ciphertext) of
                     Inl e \<Rightarrow> Inl e
                   | Inr plaintext \<Rightarrow> Inr (Some plaintext)))))"

section \<open>VaultLib: encrypt and decrypt\<close>

text \<open>The method a cipher class runs; \<open>VaultAES.encrypt\<close> only raises.\<close>

fun cipher_encrypt :: "crypto \<Rightarrow> cipher \<Rightarrow> bytes \<Rightarrow> bytes \<Rightarrow> bytes \<Rightarrow> error + bytes" where
  "cipher_encrypt c VaultAES plaintext password salt = Inl DeprecatedEncrypt"
| "cipher_encrypt c VaultAES256 plaintext password salt =
     VaultAES256_encrypt c plaintext password salt"

text \<open>A body of \<open>None\<close> has no \<open>replace\<close>: AttributeError.\<close>

fun cipher_decrypt ::
  "crypto \<Rightarrow> cipher \<Rightarrow> bytes option \<Rightarrow> bytes \<Rightarrow> bytes option \<Rightarrow> error + bytes option" where
  "cipher_decrypt c k None password version = Inl PyAttributeError"
| "cipher_decrypt c VaultAES (Some data) password version =
     (case VaultAES_decrypt c data password of
        Inl e \<Rightarrow> Inl e
      | Inr p \<Rightarrow> Inr (Some p))"
| "cipher_decrypt c VaultAES256 (Some message) password version =
     VaultAES256_decrypt c message password version"

text \<open>
  \<open>VaultLib.encrypt\<close>. A password of \<open>None\<close> reaches the key derivation, which
  takes bytes only.
\<close>

definition VaultLib_encrypt ::
  "crypto \<Rightarrow> VaultLib \<Rightarrow> bytes \<Rightarrow> bytes option \<Rightarrow> bytes \<Rightarrow> error + bytes" where
  "VaultLib_encrypt c self b_plaintext cipher_name salt =
     (if is_encrypted b_plaintext then Inl AlreadyEncrypted
      else
        (let b_cipher_name =
               (case cipher_name of
                  None \<Rightarrow> DEFAULT_WRITE_CIPHER
                | Some n \<Rightarrow>
                    if n = [] \<or> n \<notin> CIPHER_WRITE_WHITELIST then DEFAULT_WRITE_CIPHER else n)
         in
         case cipher_class b_cipher_name of
           Inl e \<Rightarrow> Inl e
         | Inr k \<Rightarrow>
             (case b_password self of
                None \<Rightarrow> Inl PyTypeError
              | Some password \<Rightarrow>
                  (case cipher_encrypt c k b_plaintext password salt of
                     Inl e \<Rightarrow> Inl e
                   | Inr b_ciphertext \<Rightarrow>
                       Inr (add_vault_header b_cipher_name (cipher_version k) b_ciphertext)))))"

text \<open>\<open>VaultLib.decrypt\<close>.\<close>

definition VaultLib_decrypt ::
  "crypto \<Rightarrow> VaultLib \<Rightarrow> bytes \<Rightarrow> error + (bytes \<times> bytes \<times> bytes \<times> bytes)" where
  "VaultLib_decrypt c self data =
     (case b_password self of
        None \<Rightarrow> Inl PasswordRequired
      | Some password \<Rightarrow>
          (case parse_vault_header data of
             Inl e \<Rightarrow> Inl e
           | Inr (b_vault_version, b_cipher_name, b_cipher_version, b_ciphertext) \<Rightarrow>
               if b_cipher_name \<notin> CIPHER_WHITELIST then Inl UnknownCipher
               else
                 (case cipher_class b_cipher_name of
                    Inl e \<Rightarrow> Inl e
                  | Inr k \<Rightarrow>
                      (case cipher_decrypt c k b_ciphertext password (Some b_cipher_version) of
                         Inl e \<Rightarrow> Inl e
                       | Inr None \<Rightarrow> Inl DecryptionFailed
                       | Inr (Some b_plaintext) \<Rightarrow>
                           Inr (b_vault_version, b_cipher_name, b_cipher_version, b_plaintext)))))"

section \<open>Files\<close>

text \<open>
  The editor works on files. A file has its contents and the three attributes that
  \<open>os.stat\<close> reports and the module reads; the world maps paths to regular files,
  holds the two standard streams, and knows the attributes that the system gives to
  a file it creates (from the umask and the ids of the process). \<open>os.chmod\<close> and
  \<open>os.chown\<close> set what they are given on an existing file and raise OSError on a
  missing one.
\<close>

record regular_file =
  contents :: bytes
  st_mode :: nat
  st_uid :: nat
  st_gid :: nat

record world =
  files :: "string \<rightharpoonup> regular_file"
  stdin :: bytes
  stdout :: bytes
  created_mode :: nat
  created_uid :: nat
  created_gid :: nat

definition os_path_isfile :: "world \<Rightarrow> string \<Rightarrow> bool" where
  "os_path_isfile w path \<longleftrightarrow> files w path \<noteq> None"

definition os_stat :: "world \<Rightarrow> string \<Rightarrow> error + regular_file" where
  "os_stat w path = (case files w path of None \<Rightarrow> Inl PyOSError | Some f \<Rightarrow> Inr f)"

definition os_remove :: "world \<Rightarrow> string \<Rightarrow> error + world" where
  "os_remove w path =
     (case files w path of
        None \<Rightarrow> Inl PyOSError
      | Some f \<Rightarrow> Inr (w\<lparr>files := (files w)(path := None)\<rparr>))"

definition os_chmod :: "world \<Rightarrow> string \<Rightarrow> nat \<Rightarrow> error + world" where
  "os_chmod w path mode =
     (case files w path of
        None \<Rightarrow> Inl PyOSError
      | Some f \<Rightarrow> Inr (w\<lparr>files := (files w)(path \<mapsto> f\<lparr>st_mode := mode\<rparr>)\<rparr>))"

definition os_chown :: "world \<Rightarrow> string \<Rightarrow> nat \<Rightarrow> nat \<Rightarrow> error + world" where
  "os_chown w path uid gid =
     (case files w path of
        None \<Rightarrow> Inl PyOSError
      | Some f \<Rightarrow> Inr (w\<lparr>files := (files w)(path \<mapsto> f\<lparr>st_uid := uid, st_gid := gid\<rparr>)\<rparr>))"

text \<open>
  \<open>with open(path, "wb") as fh: fh.write(data)\<close>: an existing file is truncated
  and keeps its attributes, a missing one is created.
\<close>

definition open_wb_write :: "world \<Rightarrow> string \<Rightarrow> bytes \<Rightarrow> world" where
  "open_wb_write w path data =
     w\<lparr>files := (files w)(path \<mapsto>
         (case files w path of
            None \<Rightarrow> \<lparr>contents = data, st_mode = created_mode w,
                      st_uid = created_uid w, st_gid = created_gid w\<rparr>
          | Some f \<Rightarrow> f\<lparr>contents := data\<rparr>))\<rparr>"

subsection \<open>An open file\<close>

text \<open>
  The handle of \<open>_shred_file_custom\<close>: the bytes of the file and the position.
  A write replaces the bytes from the position on and moves the position.
\<close>

record handle =
  buf :: bytes
  pos :: nat

definition fh_seek0 :: "handle \<Rightarrow> handle" where
  "fh_seek0 fh = fh\<lparr>pos := 0\<rparr>"

definition fh_tell :: "handle \<Rightarrow> nat" where
  "fh_tell fh = pos fh"

definition fh_write :: "handle \<Rightarrow> bytes \<Rightarrow> handle" where
  "fh_write fh data =
     \<lparr>buf = take (pos fh) (buf fh) @ replicate (pos fh - length (buf fh)) (CHR 0x00) @ data
              @ drop (pos fh + length data) (buf fh),
      pos = pos fh + length data\<rparr>"

section \<open>VaultEditor\<close>

text \<open>
  What the program cannot decide: the outcome of the \<open>shred\<close> command on a file
  (its exit status, 1 standing for the OSError of a missing command, and the bytes
  it leaves), and the random draws of each pass of the custom shredder, the chunk
  length from \<open>random.randint\<close> and the chunk from \<open>os.urandom\<close>.
\<close>

record chance =
  shred_call :: "bytes \<Rightarrow> nat \<times> bytes"
  draw :: "nat \<Rightarrow> nat \<times> bytes"

record VaultEditor =
  cipher :: "bytes option"
  vault :: VaultLib

text \<open>\<open>for _ in range(0, n): fh.write(data)\<close>.\<close>

fun write_times :: "nat \<Rightarrow> bytes \<Rightarrow> handle \<Rightarrow> handle" where
  "write_times 0 data fh = fh"
| "write_times (Suc n) data fh = write_times n data (fh_write fh data)"

text \<open>
  One pass of the loop of \<open>_shred_file_custom\<close>, given its two draws; the floor
  division raises on a chunk length of 0, and the \<open>assert\<close> is a branch.
\<close>

definition shred_pass :: "nat \<Rightarrow> nat \<times> bytes \<Rightarrow> handle \<Rightarrow> error + handle" where
  "shred_pass file_len d fh0 =
     (let fh = fh_seek0 fh0;
          chunk_len = fst d;
          data = snd d
      in
      if chunk_len = 0 then Inl PyZeroDivisionError
      else
        (let fh1 = write_times (file_len div chunk_len) data fh;
             fh2 = fh_write fh1 (py_slice data 0 (file_len mod chunk_len))
         in
         if fh_tell fh2 \<noteq> file_len then Inl PyAssertionError else Inr fh2))"

text \<open>\<open>for _ in range(passes)\<close>, counting the passes still to run.\<close>

fun shred_passes :: "chance \<Rightarrow> nat \<Rightarrow> nat \<Rightarrow> nat \<Rightarrow> handle \<Rightarrow> error + handle" where
  "shred_passes ch file_len i 0 fh = Inr fh"
| "shred_passes ch file_len i (Suc n) fh =
     (case shred_pass file_len (draw ch i) fh of
        Inl e \<Rightarrow> Inl e
      | Inr fh' \<Rightarrow> shred_passes ch file_len (Suc i) n fh')"

text \<open>\<open>VaultEditor._shred_file_custom\<close>; opening with \<open>"wb"\<close> empties the file.\<close>

definition shred_file_custom :: "chance \<Rightarrow> world \<Rightarrow> string \<Rightarrow> error + world" where
  "shred_file_custom ch w tmp_path =
     (case files w tmp_path of
        None \<Rightarrow> Inl PyOSError
      | Some f \<Rightarrow>
          (let file_len = length (contents f) in
           if file_len > 0 then
             (let passes = 3 in
              case shred_passes ch file_len 0 passes \<lparr>buf = [], pos = 0\<rparr> of
                Inl e \<Rightarrow> Inl e
              | Inr fh \<Rightarrow> Inr (open_wb_write w tmp_path (buf fh)))
           else Inr w))"

text \<open>\<open>VaultEditor._shred_file\<close>.\<close>

definition shred_file :: "chance \<Rightarrow> world \<Rightarrow> string \<Rightarrow> error + world" where
  "shred_file ch w tmp_path =
     (case files w tmp_path of
        None \<Rightarrow> Inr w
      | Some f \<Rightarrow>
          (let r = fst (shred_call ch (contents f));
               w1 = open_wb_write w tmp_path (snd (shred_call ch (contents f)))
           in
           case (if r \<noteq> 0 then shred_file_custom ch w1 tmp_path else Inr w1) of
             Inl e \<Rightarrow> Inl e
           | Inr w2 \<Rightarrow> os_remove w2 tmp_path))"

text \<open>\<open>VaultEditor.read_data\<close>: any exception becomes an AnsibleError.\<close>

definition read_data :: "world \<Rightarrow> string \<Rightarrow> error + (bytes \<times> world)" where
  "read_data w filename =
     (if filename = ''-'' then Inr (stdin w, w\<lparr>stdin := []\<rparr>)
      else
        (case files w filename of
           None \<Rightarrow> Inl ReadError
         | Some f \<Rightarrow> Inr (contents f, w)))"

text \<open>\<open>VaultEditor.write_data\<close>.\<close>

definition write_data :: "chance \<Rightarrow> world \<Rightarrow> bytes \<Rightarrow> string \<Rightarrow> bool \<Rightarrow> error + world" where
  "write_data ch w data filename shred =
     (if filename = ''-'' then Inr (w\<lparr>stdout := stdout w @ data\<rparr>)
      else
        (case (if os_path_isfile w filename then
                 (if shred then shred_file ch w filename else os_remove w filename)
               else Inr w) of
           Inl e \<Rightarrow> Inl e
         | Inr w1 \<Rightarrow> Inr (open_wb_write w1 filename data)))"

text \<open>
  \<open>VaultEditor.rekey_file\<close>; \<open>salt\<close> is the draw of the encryption under the new
  password.
\<close>

definition rekey_file ::
  "crypto \<Rightarrow> chance \<Rightarrow> VaultEditor \<Rightarrow> world \<Rightarrow> string \<Rightarrow> bytes \<Rightarrow> bytes \<Rightarrow> error + world" where
  "rekey_file c ch self w filename new_password salt =
     (case os_stat w filename of
        Inl e \<Rightarrow> Inl e
      | Inr prev \<Rightarrow>
          (case read_data w filename of
             Inl e \<Rightarrow> Inl e
           | Inr (ciphertext, w1) \<Rightarrow>
               (case VaultLib_decrypt c (vault self) ciphertext of
                  Inl e \<Rightarrow> Inl e
                | Inr (vv, cn, cv, plaintext) \<Rightarrow>
                    (let new_vault = \<lparr>b_password = Some new_password\<rparr> in
                     case VaultLib_encrypt c new_vault plaintext (cipher self) salt of
                       Inl e \<Rightarrow> Inl e
                     | Inr new_ciphertext \<Rightarrow>
                         (case write_data ch w1 new_ciphertext filename True of
                            Inl e \<Rightarrow> Inl e
                          | Inr w2 \<Rightarrow>
                              (case os_chmod w2 filename (st_mode prev) of
                                 Inl e \<Rightarrow> Inl e
                               | Inr w3 \<Rightarrow>
                                   os_chown w3 filename (st_uid prev) (st_gid prev)))))))"

section \<open>The version test as the specification words it\<close>









section \<open>Concrete inputs\<close>

text \<open>A file of five bytes and the draws of a shredding run, for the examples.\<close>

definition example_file :: regular_file where
  "example_file = \<lparr>contents = ''hello'', st_mode = 384, st_uid = 1000, st_gid = 1000\<rparr>"

definition example_world :: world where
  "example_world =
     \<lparr>files = [''/tmp/v'' \<mapsto> example_file], stdin = [], stdout = [],
      created_mode = 420, created_uid = 0, created_gid = 0\<rparr>"

definition example_chance :: chance where
  "example_chance = \<lparr>shred_call = (\<lambda>b. (1, b)), draw = (\<lambda>i. (2, ''ab''))\<rparr>"



definition blob_two_fields :: bytes where
  "blob_two_fields = ''$ANSIBLE_VAULT;1.1'' @ [CHR 0x0A] @ ''abc''"

definition blob_three_fields :: bytes where
  "blob_three_fields = ''$ANSIBLE_VAULT;1.2;AES256'' @ [CHR 0x0A] @ ''abc''"

section \<open>Properties\<close>

subsection \<open>is_equal decides equality\<close>

lemma ord_xor_zero: "ord x XOR ord y = 0 \<longleftrightarrow> x = y"
proof
  assume "ord x XOR ord y = 0"
  then have "ord x = ord y"
    by (metis bit.xor_self xor.assoc xor.right_neutral)
  then show "x = y"
    by (simp add: ord_def)
next
  assume "x = y"
  then show "ord x XOR ord y = 0" by simp
qed

lemma or_zero_nonneg: "(r::int) OR s = 0 \<longleftrightarrow> r = 0 \<and> s = 0"
  by (simp add: or_eq_0_iff)

lemma is_equal_loop_zero:
  "length a = length b \<Longrightarrow>
   is_equal_loop r (zip a b) = 0 \<longleftrightarrow> r = 0 \<and> a = b"
proof (induction a arbitrary: b r)
  case Nil
  then show ?case by simp
next
  case (Cons x a)
  then obtain y b' where b: "b = y # b'" "length a = length b'"
    by (cases b) auto
  show ?case
    using Cons.IH [OF b(2), of "r OR (ord x XOR ord y)"]
    by (auto simp: b or_zero_nonneg ord_xor_zero)
qed

text \<open>
  C5. For all byte strings \<open>a\<close> and \<open>b\<close>, \<open>is_equal\<close> returns true exactly
  when the lengths are equal and the XOR accumulation over the paired bytes is zero,
  and that is exactly when \<open>a = b\<close>.
\<close>

theorem is_equal_iff_eq:
  "(is_equal a b \<longleftrightarrow> length a = length b \<and> is_equal_loop 0 (zip a b) = 0)
   \<and> (is_equal a b \<longleftrightarrow> a = b)"
proof (cases "length a = length b")
  case True
  then show ?thesis
    by (simp add: is_equal_def is_equal_loop_zero)
next
  case False
  then show ?thesis
    by (auto simp: is_equal_def)
qed

subsection \<open>The custom shredder writes the whole length in every pass\<close>

lemma write_times_eq:
  "pos fh \<le> length (buf fh) \<Longrightarrow>
   write_times n data fh =
     \<lparr>buf = take (pos fh) (buf fh) @ concat (replicate n data)
              @ drop (pos fh + n * length data) (buf fh),
      pos = pos fh + n * length data\<rparr>"
proof (induction n arbitrary: fh)
  case 0
  then show ?case by simp
next
  case (Suc n)
  let ?fh = "fh_write fh data"
  have p: "pos ?fh \<le> length (buf ?fh)"
    using Suc.prems by (simp add: fh_write_def)
  show ?case
    using Suc.prems
    by (simp add: Suc.IH [OF p]) (simp add: fh_write_def add.commute add.left_commute)
qed

lemma length_concat_replicate: "length (concat (replicate n d)) = n * length d"
  by (induction n) simp_all

lemma shred_pass_writes_file_len:
  assumes "0 < L" and "1 \<le> c" and "c \<le> L" and "length d = c" and "length (buf fh) \<le> L"
  shows "shred_pass L (c, d) fh =
           Inr \<lparr>buf = concat (replicate (L div c) d) @ take (L mod c) d, pos = L\<rparr>
         \<and> length (concat (replicate (L div c) d)) = (L div c) * c
         \<and> length (take (L mod c) d) = L mod c
         \<and> (L div c) * c + L mod c = L"
proof -
  have m: "L mod c < c" using assms(2) by simp
  have wt: "write_times (L div c) d (fh_seek0 fh) =
     \<lparr>buf = concat (replicate (L div c) d) @ drop ((L div c) * c) (buf fh), pos = (L div c) * c\<rparr>"
    using write_times_eq [of "fh_seek0 fh" "L div c" d] assms(4)
    by (simp add: fh_seek0_def)
  have tk: "length (take (L mod c) d) = L mod c"
    using m assms(4) by simp
  have total: "(L div c) * c + L mod c = L"
    by simp
  have "fh_write (write_times (L div c) d (fh_seek0 fh)) (py_slice d 0 (L mod c)) =
      \<lparr>buf = concat (replicate (L div c) d) @ take (L mod c) d, pos = L\<rparr>"
    using assms(5) tk total
    by (simp add: wt fh_write_def py_slice_def length_concat_replicate assms(4))
  then show ?thesis
    using assms(2) assms(4) tk total
    by (simp add: shred_pass_def fh_tell_def length_concat_replicate Let_def)
qed

lemma shred_passes_ok:
  assumes "0 < L"
    and "\<forall>j. i \<le> j \<and> j < i + n \<longrightarrow> 1 \<le> fst (draw ch j) \<and> fst (draw ch j) \<le> L
           \<and> length (snd (draw ch j)) = fst (draw ch j)"
    and "length (buf fh) \<le> L"
  shows "\<exists>fh'. shred_passes ch L i n fh = Inr fh' \<and> (n = 0 \<or> length (buf fh') = L)
           \<and> length (buf fh') \<le> L"
  using assms
proof (induction n arbitrary: i fh)
  case 0
  then show ?case by simp
next
  case (Suc n)
  obtain c d where cd: "draw ch i = (c, d)" by (cases "draw ch i")
  have r: "1 \<le> c" "c \<le> L" "length d = c"
    using Suc.prems(2) [rule_format, of i] cd by auto
  let ?fh = "\<lparr>buf = concat (replicate (L div c) d) @ take (L mod c) d, pos = L\<rparr>"
  have p: "shred_pass L (draw ch i) fh = Inr ?fh"
    using shred_pass_writes_file_len [OF Suc.prems(1) r Suc.prems(3)] cd by simp
  have len: "length (buf ?fh) = L"
    using r by (simp add: length_concat_replicate)
  have "\<exists>fh'. shred_passes ch L (Suc i) n ?fh = Inr fh' \<and> (n = 0 \<or> length (buf fh') = L)
           \<and> length (buf fh') \<le> L"
  proof (rule Suc.IH [OF Suc.prems(1)])
    show "\<forall>j. Suc i \<le> j \<and> j < Suc i + n \<longrightarrow> 1 \<le> fst (draw ch j) \<and> fst (draw ch j) \<le> L
           \<and> length (snd (draw ch j)) = fst (draw ch j)"
      using Suc.prems(2) by auto
    show "length (buf ?fh) \<le> L" using len by simp
  qed
  then obtain fh' where f: "shred_passes ch L (Suc i) n ?fh = Inr fh'"
     "n = 0 \<or> length (buf fh') = L" "length (buf fh') \<le> L" by blast
  have "length (buf fh') = L"
  proof (cases n)
    case 0
    then show ?thesis using f(1) len by simp
  next
    case (Suc m)
    then show ?thesis using f(2) by simp
  qed
  then show ?case using p f by simp
qed

text \<open>
  C10. In \<open>_shred_file_custom\<close>, for a file of length \<open>L > 0\<close> and chunk lengths
  \<open>c\<close> with \<open>1 \<le> c \<le> L\<close>, every pass writes \<open>L div c\<close> whole chunks and the first
  \<open>L mod c\<close> bytes of the chunk, \<open>L\<close> bytes in all, the position is then \<open>L\<close>, so
  the assertion holds in each of the three passes and the function returns.
\<close>

theorem shred_file_custom_position:
  assumes "files w path = Some f" and "0 < length (contents f)"
    and "\<forall>i<3. 1 \<le> fst (draw ch i) \<and> fst (draw ch i) \<le> length (contents f)
           \<and> length (snd (draw ch i)) = fst (draw ch i)"
  shows "(\<forall>i<3. \<forall>fh. length (buf fh) \<le> length (contents f) \<longrightarrow>
            (let L = length (contents f); c = fst (draw ch i); d = snd (draw ch i) in
             shred_pass L (draw ch i) fh =
               Inr \<lparr>buf = concat (replicate (L div c) d) @ take (L mod c) d, pos = L\<rparr>
             \<and> length (concat (replicate (L div c) d)) = (L div c) * c
             \<and> length (take (L mod c) d) = L mod c
             \<and> (L div c) * c + L mod c = L))
         \<and> (\<exists>data. shred_file_custom ch w path = Inr (open_wb_write w path data)
               \<and> length data = length (contents f))"
proof (intro conjI allI impI)
  fix i and fh :: handle
  assume i: "i < (3::nat)" and fh: "length (buf fh) \<le> length (contents f)"
  have r: "1 \<le> fst (draw ch i)" "fst (draw ch i) \<le> length (contents f)"
      "length (snd (draw ch i)) = fst (draw ch i)"
    using assms(3) i by auto
  show "let L = length (contents f); c = fst (draw ch i); d = snd (draw ch i) in
             shred_pass L (draw ch i) fh =
               Inr \<lparr>buf = concat (replicate (L div c) d) @ take (L mod c) d, pos = L\<rparr>
             \<and> length (concat (replicate (L div c) d)) = (L div c) * c
             \<and> length (take (L mod c) d) = L mod c
             \<and> (L div c) * c + L mod c = L"
    using shred_pass_writes_file_len [OF assms(2) r fh]
    by (simp add: Let_def)
next
  have "\<exists>fh'. shred_passes ch (length (contents f)) 0 3 \<lparr>buf = [], pos = 0\<rparr> = Inr fh'
          \<and> (3 = (0::nat) \<or> length (buf fh') = length (contents f))
          \<and> length (buf fh') \<le> length (contents f)"
    using assms(3) by (intro shred_passes_ok [OF assms(2)]) auto
  then obtain fh' where
    "shred_passes ch (length (contents f)) 0 3 \<lparr>buf = [], pos = 0\<rparr> = Inr fh'"
    "length (buf fh') = length (contents f)"
    by auto
  then show "\<exists>data. shred_file_custom ch w path = Inr (open_wb_write w path data)
               \<and> length data = length (contents f)"
    using assms(1,2) by (auto simp: shred_file_custom_def intro!: exI [of _ "buf fh'"])
qed

theorem shred_file_custom_position_witness:
  "files example_world ''/tmp/v'' = Some example_file
   \<and> 0 < length (contents example_file)
   \<and> shred_pass 5 (draw example_chance 0) \<lparr>buf = [], pos = 0\<rparr> = Inr \<lparr>buf = ''ababa'', pos = 5\<rparr>
   \<and> (\<exists>data. shred_file_custom example_chance example_world ''/tmp/v''
                = Inr (open_wb_write example_world ''/tmp/v'' data)
             \<and> length data = 5)"
proof -
  have f: "files example_world ''/tmp/v'' = Some example_file"
    by (simp add: example_world_def)
  have l: "0 < length (contents example_file)"
    by (simp add: example_file_def)
  have d: "\<forall>i<3. 1 \<le> fst (draw example_chance i)
        \<and> fst (draw example_chance i) \<le> length (contents example_file)
        \<and> length (snd (draw example_chance i)) = fst (draw example_chance i)"
    by (simp add: example_chance_def example_file_def)
  have n: "length (contents example_file) = 5"
    by (simp add: example_file_def)
  have e: "concat (replicate 2 ''ab'') @ ''a'' = ''ababa''"
    by (simp add: numeral_2_eq_2)
  have p: "shred_pass 5 (draw example_chance 0) \<lparr>buf = [], pos = 0\<rparr>
      = Inr \<lparr>buf = ''ababa'', pos = 5\<rparr>"
    using shred_file_custom_position [OF f l d, THEN conjunct1, rule_format, of 0 "\<lparr>buf = [], pos = 0\<rparr>"]
    by (simp add: n example_chance_def Let_def e)
  show ?thesis
    using f l p shred_file_custom_position [OF f l d, THEN conjunct2]
    by (simp add: n)
qed

subsection \<open>The version test of the header parser\<close>

lemma py_split_nonempty: "py_split sep s \<noteq> []"
  by (induction s) (auto split: list.splits)










subsection \<open>The errors of the header parser\<close>

text \<open>
  C7, as the code has it. An input fails with NotVault exactly when it has fewer
  than three fields or its first field is not the marker; it fails with
  MalformedHeader exactly when the first field is the marker, there are at least
  three fields, and the number of fields is not the one its version asks for (four
  from 1.2 on by the test of the code, three below); the parser raises nothing else.
\<close>

theorem parse_vault_header_errors:
  "(parse_vault_header data = Inl NotVault \<longleftrightarrow>
      length (header_fields data) < 3 \<or> header_fields data ! 0 \<noteq> b_HEADER)
   \<and> ((\<exists>n. parse_vault_header data = Inl (MalformedHeader n)) \<longleftrightarrow>
        3 \<le> length (header_fields data) \<and> header_fields data ! 0 = b_HEADER
        \<and> (if py_list_ge (py_split (CHR ''.'') (py_strip (header_fields data ! 1))) [''1'', ''2'']
            then length (header_fields data) \<noteq> 4
            else length (header_fields data) \<noteq> 3))
   \<and> (\<forall>e. parse_vault_header data = Inl e \<longrightarrow>
         e = NotVault \<or> e = MalformedHeader 3 \<or> e = MalformedHeader 4)"
  by (auto simp: parse_vault_header_def Let_def)

theorem parse_vault_header_errors_witness:
  "(\<exists>n. parse_vault_header blob_three_fields = Inl (MalformedHeader n))
   \<and> header_fields blob_three_fields = [''$ANSIBLE_VAULT'', ''1.2'', ''AES256'']"
proof -
  have f: "header_fields blob_three_fields = [''$ANSIBLE_VAULT'', ''1.2'', ''AES256'']"
    by code_simp
  have g: "py_list_ge (py_split (CHR ''.'') (py_strip ''1.2'')) [''1'', ''2'']"
    by code_simp
  show ?thesis
    using parse_vault_header_errors [of blob_three_fields, THEN conjunct2, THEN conjunct1]
    by (simp add: f g b_HEADER_def)
qed

text \<open>
  The claim as stated fails for two fields: the first field is the marker and the
  error is NotVault.
\<close>

theorem parse_vault_header_two_fields_counterexample:
  "header_fields blob_two_fields = [''$ANSIBLE_VAULT'', ''1.1'']
   \<and> hd (header_fields blob_two_fields) = b_HEADER
   \<and> parse_vault_header blob_two_fields = Inl NotVault"
  by code_simp


end
